theory Spec2Isabelle
  imports Main "HOL-Library.Multiset" "HOL-Library.Option_ord"
begin

section \<open>Identifiers and errors\<close>

text \<open>
  A \<^verbatim>\<open>bson.ObjectId\<close> holds bytes. It is kept here as the lower-case hexadecimal
  digits that \<^verbatim>\<open>str(oid)\<close> prints, two for each byte, so that two identifiers are
  equal exactly when their bytes are. \<^verbatim>\<open>ObjectId(s)\<close> on a string does what the
  constructor does: a string of 24 characters is handed to \<^verbatim>\<open>bytes.fromhex\<close>, whose
  bytes become the identifier; any other length, and a failure of \<^verbatim>\<open>bytes.fromhex\<close>,
  raise \<^verbatim>\<open>InvalidId\<close>, which is \<open>None\<close> here.

  \<^verbatim>\<open>bytes.fromhex\<close> reads pairs of hexadecimal digits (either case) and skips ASCII
  whitespace before a pair, never inside one; anything else fails. So 24 hexadecimal
  digits give the usual twelve bytes, and a string of 24 characters with whitespace
  between pairs gives an identifier of fewer bytes.
\<close>

datatype oid = OID string

fun str_oid :: "oid \<Rightarrow> string" where
  "str_oid (OID h) = h"

definition is_hex :: "char \<Rightarrow> bool" where
  "is_hex c = (c \<in> set ''0123456789abcdefABCDEF'')"

definition lower_hex :: "char \<Rightarrow> char" where
  "lower_hex c =
     (if c = CHR ''A'' then CHR ''a'' else if c = CHR ''B'' then CHR ''b''
      else if c = CHR ''C'' then CHR ''c'' else if c = CHR ''D'' then CHR ''d''
      else if c = CHR ''E'' then CHR ''e'' else if c = CHR ''F'' then CHR ''f'' else c)"

definition is_space :: "char \<Rightarrow> bool" where
  "is_space c = (c \<in> set [CHR '' '', CHR 0x09, CHR 0x0A, CHR 0x0B, CHR 0x0C, CHR 0x0D])"

fun fromhex :: "string \<Rightarrow> string option" where
  "fromhex [] = Some []"
| "fromhex [c] = (if is_space c then Some [] else None)"
| "fromhex (c # d # ds) =
     (if is_space c then fromhex (d # ds)
      else if is_hex c \<and> is_hex d
           then map_option (\<lambda>r. lower_hex c # lower_hex d # r) (fromhex ds)
           else None)"

definition ObjectId :: "string \<Rightarrow> oid option" where
  "ObjectId s = (if length s = 24 then map_option OID (fromhex s) else None)"

text \<open>
  \<^verbatim>\<open>HTTPException(status_code=..., detail=...)\<close> is the only exception the handlers raise
  themselves. \<open>WriteError\<close> is the driver's exception for an update the server rejects,
  \<open>OverflowError\<close> the one its encoder raises for an integer that does not fit the eight
  bytes of the store's integers. No handler catches them, so they leave the handler as
  they are (a 500 for the client).
\<close>

datatype error = HTTPException nat string | WriteError | OverflowError | InvalidId

text \<open>
  What the encoder accepts as an integer: the signed 64-bit range. A document or a
  \<^verbatim>\<open>$set\<close> operand is encoded before it is sent; its only integer is the position.
\<close>

definition int64 :: "int \<Rightarrow> bool" where
  "int64 v = (- (2 ^ 63) \<le> v \<and> v < 2 ^ 63)"

definition encodable :: "int option \<Rightarrow> bool" where
  "encodable p = (case p of None \<Rightarrow> True | Some v \<Rightarrow> int64 v)"

section \<open>Documents, payloads and the store\<close>

text \<open>
  Stored documents are dictionaries; they are typed here by the two schemas. The key
  \<^verbatim>\<open>position\<close> is optional (\<open>None\<close>: the key is absent), because the handlers read it
  with \<^verbatim>\<open>get("position", 0)\<close>.
\<close>

record column_doc =
  c_oid :: oid
  c_name :: string
  c_position :: "int option"

record task_doc =
  t_oid :: oid
  t_title :: string
  t_description :: "string option"
  t_column_id :: string
  t_position :: "int option"
  t_priority :: string
  t_tags :: "string list"

text \<open>The same documents after \<^verbatim>\<open>to_str_id\<close>: the key \<^verbatim>\<open>_id\<close> is gone, \<^verbatim>\<open>id\<close> holds its string.\<close>

record column_json =
  cj_id :: string
  cj_name :: string
  cj_position :: "int option"

record task_json =
  tj_id :: string
  tj_title :: string
  tj_description :: "string option"
  tj_column_id :: string
  tj_position :: "int option"
  tj_priority :: string
  tj_tags :: "string list"

text \<open>The request models. A field that is \<open>None\<close> is Python's \<^verbatim>\<open>None\<close>.\<close>

record ColumnCreate =
  cc_name :: string
  cc_position :: "int option"

record ColumnUpdate =
  cu_name :: "string option"
  cu_position :: "int option"

record TaskCreate =
  tc_title :: string
  tc_description :: "string option"
  tc_column_id :: string
  tc_position :: "int option"
  tc_priority :: "string option"
  tc_tags :: "string list option"

record TaskUpdate =
  tu_title :: "string option"
  tu_description :: "string option"
  tu_column_id :: "string option"
  tu_position :: "int option"
  tu_priority :: "string option"
  tu_tags :: "string list option"

text \<open>
  The store: the two collections in their natural order, the calls the handlers have made
  on the driver so far (oldest first), and whether the server rejects an update whose
  \<^verbatim>\<open>$set\<close> operand is empty (MongoDB before 5.0 does, later servers accept it and change
  nothing).
\<close>

datatype collection = Column | Task

datatype call =
  Find collection | FindOne collection | InsertOne collection
  | UpdateOne collection | DeleteOne collection | DeleteMany collection

record store =
  columns :: "column_doc list"
  tasks :: "task_doc list"
  calls :: "call list"
  rejects_empty_set :: bool

definition called :: "call \<Rightarrow> store \<Rightarrow> store" where
  "called c s = s\<lparr>calls := calls s @ [c]\<rparr>"

fun update_first :: "('a \<Rightarrow> bool) \<Rightarrow> ('a \<Rightarrow> 'a) \<Rightarrow> 'a list \<Rightarrow> 'a list" where
  "update_first P f [] = []"
| "update_first P f (x # xs) = (if P x then f x # xs else x # update_first P f xs)"

fun delete_first :: "('a \<Rightarrow> bool) \<Rightarrow> 'a list \<Rightarrow> 'a list" where
  "delete_first P [] = []"
| "delete_first P (x # xs) = (if P x then xs else x # delete_first P xs)"

section \<open>The driver's operations\<close>

text \<open>
  Each operation of the driver records its call and returns the store it leaves. A write
  whose position the encoder refuses raises \<open>OverflowError\<close> and changes nothing; the
  call is recorded all the same. A lost connection and the store's bound on the size of a
  document are not part of this model.
  \<^verbatim>\<open>update_one\<close> and \<^verbatim>\<open>delete_one\<close> act on the first matching document,
  \<^verbatim>\<open>delete_many\<close> on all of them. The \<^verbatim>\<open>$set\<close> operand of an update is the dictionary
  \<^verbatim>\<open>updates\<close> of the handler, which holds the payload's fields that are not \<^verbatim>\<open>None\<close>:
  it is the payload record itself, a field \<open>None\<close> being a key that is absent.
\<close>

definition find_one_column :: "oid \<Rightarrow> store \<Rightarrow> column_doc option \<times> store" where
  "find_one_column i s = (find (\<lambda>c. c_oid c = i) (columns s), called (FindOne Column) s)"

definition find_one_task :: "oid \<Rightarrow> store \<Rightarrow> task_doc option \<times> store" where
  "find_one_task i s = (find (\<lambda>t. t_oid t = i) (tasks s), called (FindOne Task) s)"

definition set_column :: "ColumnUpdate \<Rightarrow> column_doc \<Rightarrow> column_doc" where
  "set_column u c =
     c\<lparr>c_name := (case cu_name u of None \<Rightarrow> c_name c | Some n \<Rightarrow> n),
       c_position := (case cu_position u of None \<Rightarrow> c_position c | Some p \<Rightarrow> Some p)\<rparr>"

definition set_task :: "TaskUpdate \<Rightarrow> task_doc \<Rightarrow> task_doc" where
  "set_task u t =
     t\<lparr>t_title := (case tu_title u of None \<Rightarrow> t_title t | Some x \<Rightarrow> x),
       t_description := (case tu_description u of None \<Rightarrow> t_description t | Some x \<Rightarrow> Some x),
       t_column_id := (case tu_column_id u of None \<Rightarrow> t_column_id t | Some x \<Rightarrow> x),
       t_position := (case tu_position u of None \<Rightarrow> t_position t | Some x \<Rightarrow> Some x),
       t_priority := (case tu_priority u of None \<Rightarrow> t_priority t | Some x \<Rightarrow> x),
       t_tags := (case tu_tags u of None \<Rightarrow> t_tags t | Some x \<Rightarrow> x)\<rparr>"

definition no_column_updates :: "ColumnUpdate \<Rightarrow> bool" where
  "no_column_updates u = (cu_name u = None \<and> cu_position u = None)"

definition no_task_updates :: "TaskUpdate \<Rightarrow> bool" where
  "no_task_updates u =
     (tu_title u = None \<and> tu_description u = None \<and> tu_column_id u = None \<and>
      tu_position u = None \<and> tu_priority u = None \<and> tu_tags u = None)"

definition update_one_column :: "oid \<Rightarrow> ColumnUpdate \<Rightarrow> store \<Rightarrow> error option \<times> store" where
  "update_one_column i u s =
     (if \<not> encodable (cu_position u) then (Some OverflowError, called (UpdateOne Column) s)
      else if no_column_updates u \<and> rejects_empty_set s
      then (Some WriteError, called (UpdateOne Column) s)
      else (None, called (UpdateOne Column)
              (s\<lparr>columns := update_first (\<lambda>c. c_oid c = i) (set_column u) (columns s)\<rparr>)))"

definition update_one_task :: "oid \<Rightarrow> TaskUpdate \<Rightarrow> store \<Rightarrow> error option \<times> store" where
  "update_one_task i u s =
     (if \<not> encodable (tu_position u) then (Some OverflowError, called (UpdateOne Task) s)
      else if no_task_updates u \<and> rejects_empty_set s
      then (Some WriteError, called (UpdateOne Task) s)
      else (None, called (UpdateOne Task)
              (s\<lparr>tasks := update_first (\<lambda>t. t_oid t = i) (set_task u) (tasks s)\<rparr>)))"

text \<open>The first component is \<^verbatim>\<open>deleted_count\<close>.\<close>

definition delete_one_column :: "oid \<Rightarrow> store \<Rightarrow> nat \<times> store" where
  "delete_one_column i s =
     (if list_ex (\<lambda>c. c_oid c = i) (columns s) then 1 else 0,
      called (DeleteOne Column) (s\<lparr>columns := delete_first (\<lambda>c. c_oid c = i) (columns s)\<rparr>))"

definition delete_one_task :: "oid \<Rightarrow> store \<Rightarrow> nat \<times> store" where
  "delete_one_task i s =
     (if list_ex (\<lambda>t. t_oid t = i) (tasks s) then 1 else 0,
      called (DeleteOne Task) (s\<lparr>tasks := delete_first (\<lambda>t. t_oid t = i) (tasks s)\<rparr>))"

text \<open>\<^verbatim>\<open>db["task"].delete_many({"column_id": c})\<close>\<close>

definition delete_many_tasks :: "string \<Rightarrow> store \<Rightarrow> store" where
  "delete_many_tasks c s =
     called (DeleteMany Task) (s\<lparr>tasks := filter (\<lambda>t. t_column_id t \<noteq> c) (tasks s)\<rparr>)"

text \<open>
  \<^verbatim>\<open>db["task"].find({"column_id": c}).sort("position", -1).limit(1)\<close>: the server orders
  a missing key as null, below every number, so in descending order the documents with a
  position come first, the largest on top. The order on \<open>int option\<close> is that one
  (\<open>None\<close> is least). The cursor holds at most one document.
\<close>

definition find_last_task :: "string \<Rightarrow> store \<Rightarrow> task_doc list \<times> store" where
  "find_last_task c s =
     (take 1 (rev (sort_key t_position (filter (\<lambda>t. t_column_id t = c) (tasks s)))),
      called (Find Task) s)"

text \<open>
  Modelled from the spec: \<^verbatim>\<open>get_documents\<close> and \<^verbatim>\<open>create_document\<close> of the module
  \<^verbatim>\<open>database\<close>, which is not among the sources. The first is the driver's find with a
  filter (the query of the handlers is either empty, \<open>None\<close> here, or one
  \<^verbatim>\<open>column_id\<close>); the second is its insert-one, the identifier being assigned by the
  store (the argument \<open>new\<close>) and returned as a string, or the encoder's error with
  nothing inserted.
\<close>

definition get_documents_column :: "store \<Rightarrow> column_doc list \<times> store" where
  "get_documents_column s = (columns s, called (Find Column) s)"


definition create_document_column ::
  "oid \<Rightarrow> column_doc \<Rightarrow> store \<Rightarrow> (error + string) \<times> store" where
  "create_document_column new d s =
     (if \<not> encodable (c_position d) then (Inl OverflowError, called (InsertOne Column) s)
      else (Inr (str_oid new),
            called (InsertOne Column) (s\<lparr>columns := columns s @ [d\<lparr>c_oid := new\<rparr>]\<rparr>)))"

definition create_document_task ::
  "oid \<Rightarrow> task_doc \<Rightarrow> store \<Rightarrow> (error + string) \<times> store" where
  "create_document_task new d s =
     (if \<not> encodable (t_position d) then (Inl OverflowError, called (InsertOne Task) s)
      else (Inr (str_oid new),
            called (InsertOne Task) (s\<lparr>tasks := tasks s @ [d\<lparr>t_oid := new\<rparr>]\<rparr>)))"

section \<open>The handlers\<close>

text \<open>
  \<^verbatim>\<open>to_str_id\<close>: a stored document is a non-empty dictionary and its \<^verbatim>\<open>_id\<close> is an
  \<^verbatim>\<open>ObjectId\<close>, which is true in Python, so the branch is always taken. On \<^verbatim>\<open>None\<close>
  (a \<^verbatim>\<open>find_one\<close> without a match) the function returns \<^verbatim>\<open>None\<close>: \<open>map_option\<close> at
  the call.
\<close>

definition to_str_id_column :: "column_doc \<Rightarrow> column_json" where
  "to_str_id_column d =
     \<lparr>cj_id = str_oid (c_oid d), cj_name = c_name d, cj_position = c_position d\<rparr>"

definition to_str_id_task :: "task_doc \<Rightarrow> task_json" where
  "to_str_id_task d =
     \<lparr>tj_id = str_oid (t_oid d), tj_title = t_title d, tj_description = t_description d,
      tj_column_id = t_column_id d, tj_position = t_position d, tj_priority = t_priority d,
      tj_tags = t_tags d\<rparr>"

text \<open>The bodies the handlers return: \<^verbatim>\<open>{"updated": b}\<close>, \<^verbatim>\<open>{"deleted": b}\<close>, or a document.\<close>

datatype 'a patched = Updated bool | Document 'a

datatype deleted = Deleted bool

text \<open>\<^verbatim>\<open>c.get("position", 0)\<close>, the sort key of both list handlers.\<close>

definition column_key :: "column_doc \<Rightarrow> int" where
  "column_key c = (case c_position c of None \<Rightarrow> 0 | Some p \<Rightarrow> p)"

definition task_key :: "task_doc \<Rightarrow> int" where
  "task_key t = (case t_position t of None \<Rightarrow> 0 | Some p \<Rightarrow> p)"

definition list_columns :: "store \<Rightarrow> column_json list \<times> store" where
  "list_columns s =
     (let (cols, s1) = get_documents_column s
      in (map to_str_id_column (sort_key column_key cols), s1))"

text \<open>\<^verbatim>\<open>payload.position or 0\<close> is the position, and \<open>0\<close> for \<^verbatim>\<open>None\<close>.\<close>

definition create_column ::
  "oid \<Rightarrow> ColumnCreate \<Rightarrow> store \<Rightarrow> (error + column_json option) \<times> store" where
  "create_column new payload s =
     (let col = \<lparr>c_oid = new, c_name = cc_name payload,
                 c_position = Some (case cc_position payload of None \<Rightarrow> 0 | Some p \<Rightarrow> p)\<rparr>;
          (created, s1) = create_document_column new col s
      in case created of
           Inl e \<Rightarrow> (Inl e, s1)
         | Inr new_id \<Rightarrow>
             (case ObjectId new_id of
                None \<Rightarrow> (Inl InvalidId, s1)
              | Some i \<Rightarrow>
                  (let (doc, s2) = find_one_column i s1
                   in (Inr (map_option to_str_id_column doc), s2))))"

definition update_column ::
  "string \<Rightarrow> ColumnUpdate \<Rightarrow> store \<Rightarrow> (error + column_json patched) \<times> store" where
  "update_column column_id payload s =
     (case ObjectId column_id of
        None \<Rightarrow> (Inl (HTTPException 400 ''Invalid column id''), s)
      | Some i \<Rightarrow>
          if no_column_updates payload then (Inr (Updated False), s)
          else
            (let (err, s1) = update_one_column i payload s
             in case err of
                  Some e \<Rightarrow> (Inl e, s1)
                | None \<Rightarrow>
                    (let (doc, s2) = find_one_column i s1
                     in case doc of
                          None \<Rightarrow> (Inl (HTTPException 404 ''Column not found''), s2)
                        | Some d \<Rightarrow> (Inr (Document (to_str_id_column d)), s2))))"

definition delete_column :: "string \<Rightarrow> store \<Rightarrow> (error + deleted) \<times> store" where
  "delete_column column_id s =
     (case ObjectId column_id of
        None \<Rightarrow> (Inl (HTTPException 400 ''Invalid column id''), s)
      | Some i \<Rightarrow>
          (let (deleted_count, s1) = delete_one_column i s;
               s2 = delete_many_tasks column_id s1
           in if deleted_count = 0 then (Inl (HTTPException 404 ''Column not found''), s2)
              else (Inr (Deleted True), s2)))"


text \<open>
  The loop \<^verbatim>\<open>for d in last: last_pos = int(d.get("position", 0)) + 1\<close> over the cursor,
  from \<^verbatim>\<open>last_pos = 0\<close>. It stands twice in the source, in \<^verbatim>\<open>create_task\<close> and in
  \<^verbatim>\<open>update_task\<close>.
\<close>

definition last_pos_of :: "task_doc list \<Rightarrow> int" where
  "last_pos_of last' = fold (\<lambda>d last_pos. task_key d + 1) last' 0"

text \<open>
  \<^verbatim>\<open>payload.priority or "normal"\<close> and \<^verbatim>\<open>payload.tags or []\<close>: \<^verbatim>\<open>None\<close> and the empty
  value give the default. \<^verbatim>\<open>payload.position\<close> is not read.
\<close>

definition create_task ::
  "oid \<Rightarrow> TaskCreate \<Rightarrow> store \<Rightarrow> (error + task_json option) \<times> store" where
  "create_task new payload s =
     (let (last', s0) = find_last_task (tc_column_id payload) s;
          last_pos = last_pos_of last';
          t = \<lparr>t_oid = new, t_title = tc_title payload,
               t_description = tc_description payload,
               t_column_id = tc_column_id payload,
               t_position = Some last_pos,
               t_priority = (case tc_priority payload of
                               None \<Rightarrow> ''normal''
                             | Some p \<Rightarrow> if p \<noteq> [] then p else ''normal''),
               t_tags = (case tc_tags payload of None \<Rightarrow> [] | Some g \<Rightarrow> g)\<rparr>;
          (created, s1) = create_document_task new t s0
      in case created of
           Inl e \<Rightarrow> (Inl e, s1)
         | Inr new_id \<Rightarrow>
             (case ObjectId new_id of
                None \<Rightarrow> (Inl InvalidId, s1)
              | Some i \<Rightarrow>
                  (let (doc, s2) = find_one_task i s1
                   in (Inr (map_option to_str_id_task doc), s2))))"

definition update_task ::
  "string \<Rightarrow> TaskUpdate \<Rightarrow> store \<Rightarrow> (error + task_json) \<times> store" where
  "update_task task_id payload s =
     (case ObjectId task_id of
        None \<Rightarrow> (Inl (HTTPException 400 ''Invalid task id''), s)
      | Some i \<Rightarrow>
          (let (updates, s0) =
                 (case tu_column_id payload of
                    Some c \<Rightarrow>
                      if tu_position payload = None
                      then (let (last', s') = find_last_task c s
                            in (payload\<lparr>tu_position := Some (last_pos_of last')\<rparr>, s'))
                      else (payload, s)
                  | None \<Rightarrow> (payload, s));
               (err, s1) = update_one_task i updates s0
           in case err of
                Some e \<Rightarrow> (Inl e, s1)
              | None \<Rightarrow>
                  (let (doc, s2) = find_one_task i s1
                   in case doc of
                        None \<Rightarrow> (Inl (HTTPException 404 ''Task not found''), s2)
                      | Some d \<Rightarrow> (Inr (to_str_id_task d), s2))))"

definition delete_task :: "string \<Rightarrow> store \<Rightarrow> (error + deleted) \<times> store" where
  "delete_task task_id s =
     (case ObjectId task_id of
        None \<Rightarrow> (Inl (HTTPException 400 ''Invalid task id''), s)
      | Some i \<Rightarrow>
          (let (deleted_count, s1) = delete_one_task i s
           in if deleted_count = 0 then (Inl (HTTPException 404 ''Task not found''), s1)
              else (Inr (Deleted True), s1)))"

section \<open>The diagnostics handler\<close>

text \<open>
  The status texts start with a pictograph; it is kept apart from the text that follows it
  (\<open>Marked\<close>), the text being the rest of the literal, blanks included. \<open>Plain\<close> is a
  string without one, \<open>Null\<close> is \<^verbatim>\<open>None\<close>.
\<close>

datatype mark = CheckMark | CrossMark | WarningSign

datatype status = Null | Plain string | Marked mark string

record diagnostics =
  backend :: status
  database :: status
  database_url :: status
  database_name :: status
  connection_status :: string
  collections :: "string list"

text \<open>
  The global \<^verbatim>\<open>db\<close> is \<^verbatim>\<open>None\<close> or a handle. What the handler does with a handle may
  raise: \<open>Inl msg\<close> is an exception \<^verbatim>\<open>e\<close> with \<^verbatim>\<open>str(e) = msg\<close>. \<open>db_name\<close> is the
  attribute \<^verbatim>\<open>name\<close> (\<open>Inr None\<close>: the handle has no such attribute),
  \<open>list_collection_names\<close> the result of the call.
\<close>

record db_handle =
  db_name :: "string + string option"
  list_collection_names :: "string + string list"

text \<open>\<^verbatim>\<open>os.getenv(k)\<close> in a condition: true for a variable that is set and not empty.\<close>

definition getenv_set :: "string option \<Rightarrow> bool" where
  "getenv_set v = (case v of None \<Rightarrow> False | Some x \<Rightarrow> x \<noteq> [])"

definition test_database :: "db_handle option \<Rightarrow> string option \<Rightarrow> string option \<Rightarrow> diagnostics" where
  "test_database db env_url env_name =
     (let response = \<lparr>backend = Marked CheckMark '' Running'',
                      database = Marked CrossMark '' Not Available'',
                      database_url = Null, database_name = Null,
                      connection_status = ''Not Connected'', collections = []\<rparr>;
          response =
            (case db of
               None \<Rightarrow> response\<lparr>database := Marked WarningSign ''  Available but not initialized''\<rparr>
             | Some h \<Rightarrow>
                 (let r1 = response\<lparr>database := Marked CheckMark '' Available'',
                                    database_url := Marked CheckMark '' Configured''\<rparr>
                  in case db_name h of
                       Inl e \<Rightarrow> r1\<lparr>database := Marked CrossMark ('' Error: '' @ take 50 e)\<rparr>
                     | Inr n \<Rightarrow>
                         (let r2 = r1\<lparr>database_name :=
                                         (case n of Some x \<Rightarrow> Plain x
                                          | None \<Rightarrow> Marked CheckMark '' Connected''),
                                       connection_status := ''Connected''\<rparr>
                          in case list_collection_names h of
                               Inr cs \<Rightarrow>
                                 r2\<lparr>collections := take 10 cs,
                                    database := Marked CheckMark '' Connected & Working''\<rparr>
                             | Inl e \<Rightarrow>
                                 r2\<lparr>database :=
                                      Marked WarningSign (''  Connected but Error: '' @ take 50 e)\<rparr>)))
      in response\<lparr>database_url := (if getenv_set env_url then Marked CheckMark '' Set''
                                     else Marked CrossMark '' Not Set''),
                  database_name := (if getenv_set env_name then Marked CheckMark '' Set''
                                      else Marked CrossMark '' Not Set'')\<rparr>)"

section \<open>The position rule in the spec's words\<close>

text \<open>
  The positions held by the tasks of a column, and the rule of the spec: the largest of them
  plus one, or \<open>0\<close> when there is none. \<open>new_position\<close> is what the source computes for
  the same column (the query and the loop of \<^verbatim>\<open>create_task\<close> and \<^verbatim>\<open>update_task\<close>).
\<close>

definition column_positions :: "string \<Rightarrow> task_doc list \<Rightarrow> int list" where
  "column_positions c ts =
     map (the \<circ> t_position) (filter (\<lambda>t. t_column_id t = c \<and> t_position t \<noteq> None) ts)"

definition spec_end_of_column :: "string \<Rightarrow> task_doc list \<Rightarrow> int" where
  "spec_end_of_column c ts =
     (if column_positions c ts = [] then 0 else Max (set (column_positions c ts)) + 1)"

definition new_position :: "string \<Rightarrow> store \<Rightarrow> int" where
  "new_position c s = last_pos_of (fst (find_last_task c s))"

section \<open>A board for the examples\<close>

text \<open>Two columns and three tasks, two of them in the first column.\<close>

definition id_a :: string where "id_a = ''65a1b2c3d4e5f60718293a4b''"

definition id_b :: string where "id_b = ''65a1b2c3d4e5f60718293a4c''"

definition id_1 :: string where "id_1 = ''75a1b2c3d4e5f60718293a01''"

definition id_2 :: string where "id_2 = ''75a1b2c3d4e5f60718293a02''"

definition id_3 :: string where "id_3 = ''75a1b2c3d4e5f60718293a03''"

definition id_4 :: string where "id_4 = ''75a1b2c3d4e5f60718293a04''"

definition task_1 :: task_doc where
  "task_1 = \<lparr>t_oid = OID id_1, t_title = ''write'', t_description = None, t_column_id = id_a,
             t_position = Some 0, t_priority = ''normal'', t_tags = []\<rparr>"

definition task_2 :: task_doc where
  "task_2 = \<lparr>t_oid = OID id_2, t_title = ''review'', t_description = None, t_column_id = id_b,
             t_position = Some 4, t_priority = ''high'', t_tags = []\<rparr>"

definition task_3 :: task_doc where
  "task_3 = \<lparr>t_oid = OID id_3, t_title = ''ship'', t_description = None, t_column_id = id_a,
             t_position = Some 1, t_priority = ''normal'', t_tags = []\<rparr>"

definition board :: store where
  "board = \<lparr>columns = [\<lparr>c_oid = OID id_a, c_name = ''Todo'', c_position = Some 0\<rparr>,
                        \<lparr>c_oid = OID id_b, c_name = ''Done'', c_position = Some 1\<rparr>],
            tasks = [task_1, task_2, task_3], calls = [], rejects_empty_set = False\<rparr>"

text \<open>
  A task with nothing but its identifier, its column and its position.
\<close>

definition task_at :: "string \<Rightarrow> string \<Rightarrow> int \<Rightarrow> task_doc" where
  "task_at i c p = \<lparr>t_oid = OID i, t_title = ''t'', t_description = None, t_column_id = c,
                    t_position = Some p, t_priority = ''normal'', t_tags = []\<rparr>"

section \<open>Lemmas on the driver's operations\<close>

lemma called_simps [simp]:
  "columns (called c s) = columns s" "tasks (called c s) = tasks s"
  "calls (called c s) = calls s @ [c]" "rejects_empty_set (called c s) = rejects_empty_set s"
  by (simp_all add: called_def)

lemma delete_first_distinct:
  "distinct (map f xs) \<Longrightarrow> delete_first (\<lambda>x. f x = i) xs = filter (\<lambda>x. f x \<noteq> i) xs"
proof (induction xs)
  case Nil
  then show ?case by simp
next
  case (Cons x xs)
  show ?case
  proof (cases "f x = i")
    case True
    from Cons.prems have "f x \<notin> f ` set xs" by simp
    with True have "\<forall>y \<in> set xs. f y \<noteq> i" by (metis imageI)
    then have "filter (\<lambda>x. f x \<noteq> i) xs = xs" by (simp add: filter_id_conv)
    with True show ?thesis by simp
  next
    case False
    with Cons show ?thesis by simp
  qed
qed

lemma delete_first_absent:
  "\<not> list_ex P xs \<Longrightarrow> delete_first P xs = xs"
  by (induction xs) auto

lemma update_first_absent:
  "\<not> list_ex P xs \<Longrightarrow> update_first P f xs = xs"
  by (induction xs) auto

lemma list_ex_find: "list_ex P xs \<longleftrightarrow> find P xs \<noteq> None"
  by (induction xs) auto

lemma find_update_first:
  assumes "\<And>x. P x \<Longrightarrow> P (f x)"
  shows "find P (update_first P f xs) = map_option f (find P xs)"
  using assms by (induction xs) auto

lemma t_oid_set_task [simp]: "t_oid (set_task u t) = t_oid t"
  by (simp add: set_task_def)

lemmas ids = id_a_def id_b_def id_1_def id_2_def id_3_def id_4_def

lemmas ObjectId_eval = ObjectId_def is_hex_def is_space_def lower_hex_def

lemma ObjectId_ids:
  "ObjectId id_a = Some (OID id_a)" "ObjectId id_b = Some (OID id_b)"
  "ObjectId id_1 = Some (OID id_1)" "ObjectId id_2 = Some (OID id_2)"
  "ObjectId id_3 = Some (OID id_3)" "ObjectId id_4 = Some (OID id_4)"
  by (simp_all add: ids ObjectId_eval)

section \<open>The end of a column\<close>

text \<open>
  The top of the descending cursor is the last document of the ascending sort; its key is
  the greatest of the column.
\<close>

lemma top_of_sorted:
  assumes "xs \<noteq> []"
  shows "take 1 (rev (sort_key f xs)) = [last (sort_key f xs)]"
proof -
  from assms have "sort_key f xs \<noteq> []" by (metis length_0_conv length_sort)
  then obtain ys y where "sort_key f xs = ys @ [y]" by (metis rev_exhaust)
  then show ?thesis by simp
qed

lemma last_sort_key_greatest:
  assumes "xs \<noteq> []"
  shows "last (sort_key f xs) \<in> set xs \<and> (\<forall>x \<in> set xs. f x \<le> f (last (sort_key f xs)))"
proof -
  let ?ys = "sort_key f xs"
  from assms have ne: "?ys \<noteq> []" by (metis length_0_conv length_sort)
  then obtain zs z where zs: "?ys = zs @ [z]" by (metis rev_exhaust)
  have "sorted (map f ?ys)" by (rule sorted_sort_key)
  with zs have "\<forall>x \<in> set zs. f x \<le> f z" by (simp add: sorted_append)
  with zs have "\<forall>x \<in> set ?ys. f x \<le> f z" by auto
  moreover have "set ?ys = set xs" by simp
  moreover from zs have "last ?ys = z" by simp
  ultimately show ?thesis using zs by (metis last_in_set ne)
qed

text \<open>
  What the source computes is the rule of the spec, for every store; the one case the rule
  does not speak of is a column whose tasks all lack the key \<^verbatim>\<open>position\<close>, where the top
  document reads as \<open>0\<close> and the result is \<open>1\<close>.
\<close>

lemma new_position_eq:
  "new_position c s =
     (if column_positions c (tasks s) = [] \<and> filter (\<lambda>t. t_column_id t = c) (tasks s) \<noteq> []
      then 1 else spec_end_of_column c (tasks s))"
proof (cases "filter (\<lambda>t. t_column_id t = c) (tasks s) = []")
  case True
  then have "column_positions c (tasks s) = []"
    by (auto simp: column_positions_def filter_empty_conv)
  with True show ?thesis
    by (simp add: new_position_def find_last_task_def last_pos_of_def spec_end_of_column_def)
next
  case False
  let ?col = "filter (\<lambda>t. t_column_id t = c) (tasks s)"
  let ?d = "last (sort_key t_position ?col)"
  from False have top: "?d \<in> set ?col" and ge: "\<forall>t \<in> set ?col. t_position t \<le> t_position ?d"
    using last_sort_key_greatest [of ?col t_position] by simp_all
  have "fst (find_last_task c s) = [?d]"
    using top_of_sorted [OF False, of t_position] by (simp add: find_last_task_def)
  then have np: "new_position c s = task_key ?d + 1"
    by (simp add: new_position_def last_pos_of_def)
  have ps: "set (column_positions c (tasks s)) = {p. \<exists>t \<in> set ?col. t_position t = Some p}"
    by (force simp: column_positions_def)
  show ?thesis
  proof (cases "t_position ?d")
    case None
    with ge have "\<forall>t \<in> set ?col. t_position t = None"
      by (metis less_eq_option_None_is_None)
    with ps have "set (column_positions c (tasks s)) = {}" by simp
    then have "column_positions c (tasks s) = []" by simp
    with False None np show ?thesis by (simp add: task_key_def)
  next
    case (Some m)
    with top ps have m_in: "m \<in> set (column_positions c (tasks s))" by auto
    have "\<forall>p \<in> set (column_positions c (tasks s)). p \<le> m"
    proof
      fix p assume "p \<in> set (column_positions c (tasks s))"
      with ps obtain t where "t \<in> set ?col" "t_position t = Some p" by auto
      with ge Some show "p \<le> m" by (metis less_eq_option_Some)
    qed
    with m_in have "Max (set (column_positions c (tasks s))) = m"
      by (intro Max_eqI) auto
    with m_in Some np show ?thesis by (auto simp: spec_end_of_column_def task_key_def)
  qed
qed

lemma create_task_store:
  "tasks (snd (create_task new payload s)) =
     (if int64 (new_position (tc_column_id payload) s)
      then tasks s @
        [\<lparr>t_oid = new, t_title = tc_title payload, t_description = tc_description payload,
          t_column_id = tc_column_id payload,
          t_position = Some (new_position (tc_column_id payload) s),
          t_priority = (case tc_priority payload of None \<Rightarrow> ''normal''
                        | Some p \<Rightarrow> if p \<noteq> [] then p else ''normal''),
          t_tags = (case tc_tags payload of None \<Rightarrow> [] | Some g \<Rightarrow> g)\<rparr>]
      else tasks s)"
  by (simp add: create_task_def new_position_def create_document_task_def find_one_task_def
      find_last_task_def encodable_def Let_def split: option.split prod.split)

lemma create_task_overflow:
  "\<not> int64 (new_position (tc_column_id payload) s) \<Longrightarrow>
   fst (create_task new payload s) = Inl OverflowError"
  by (simp add: create_task_def new_position_def create_document_task_def
      find_last_task_def encodable_def Let_def)

section \<open>Columns\<close>

text \<open>
  Claim C7. Update Column with a well-formed id and a patch whose fields are all
  \<^verbatim>\<open>None\<close> returns \<^verbatim>\<open>{"updated": False}\<close> and leaves the store as it was, calls included:
  no call reaches the driver, whether a column with that id exists or not.
\<close>

theorem update_column_empty_patch:
  assumes "ObjectId column_id = Some i" and "cu_name payload = None" and "cu_position payload = None"
  shows "update_column column_id payload s = (Inr (Updated False), s)"
  using assms by (simp add: update_column_def no_column_updates_def)

text \<open>
  On the example board: once for the id of the first column, once for an id that no column
  has.
\<close>

theorem update_column_empty_patch_witness:
  "ObjectId id_a = Some (OID id_a) \<and>
   update_column id_a \<lparr>cu_name = None, cu_position = None\<rparr> board = (Inr (Updated False), board) \<and>
   ObjectId id_4 = Some (OID id_4) \<and>
   find (\<lambda>c. c_oid c = OID id_4) (columns board) = None \<and>
   update_column id_4 \<lparr>cu_name = None, cu_position = None\<rparr> board = (Inr (Updated False), board)"
  using update_column_empty_patch [OF ObjectId_ids(1), of "\<lparr>cu_name = None, cu_position = None\<rparr>" board]
    update_column_empty_patch [OF ObjectId_ids(6), of "\<lparr>cu_name = None, cu_position = None\<rparr>" board]
  by (simp add: ObjectId_ids) (simp add: board_def ids)

text \<open>
  Claim C8. List Columns has no input and no error result; what it returns is ordered by
  position, a document without the key counting as \<open>0\<close>, and holds exactly the stored
  columns (as a multiset, each after \<^verbatim>\<open>to_str_id\<close>). The collections are left as they
  were.
\<close>

theorem list_columns_sorted:
  "sorted (map (\<lambda>j. case cj_position j of None \<Rightarrow> 0 | Some p \<Rightarrow> p) (fst (list_columns s))) \<and>
   mset (fst (list_columns s)) = mset (map to_str_id_column (columns s)) \<and>
   columns (snd (list_columns s)) = columns s \<and> tasks (snd (list_columns s)) = tasks s"
proof -
  have key: "(\<lambda>j. case cj_position j of None \<Rightarrow> 0 | Some p \<Rightarrow> p) \<circ> to_str_id_column = column_key"
    by (rule ext) (simp add: column_key_def to_str_id_column_def)
  have "sorted (map column_key (sort_key column_key (columns s)))"
    by (rule sorted_sort_key)
  then show ?thesis
    by (simp add: list_columns_def get_documents_column_def key)
qed

text \<open>
  Claim C5. Delete Column with a well-formed id \<open>C\<close>, the identifiers of the stored
  columns being distinct (the store's unique index on \<^verbatim>\<open>_id\<close>): no column with that id
  is left and the other columns stay; the tasks left are exactly those whose
  \<^verbatim>\<open>column_id\<close> is not the string \<open>C\<close>, in their order; both deletes are issued, the
  cascade after the column's; the answer is \<^verbatim>\<open>{"deleted": True}\<close> when a column
  matched and the 404 otherwise.
\<close>

theorem delete_column_cascade:
  assumes "ObjectId C = Some i" and "distinct (map c_oid (columns s))"
  shows "columns (snd (delete_column C s)) = filter (\<lambda>c. c_oid c \<noteq> i) (columns s) \<and>
         tasks (snd (delete_column C s)) = filter (\<lambda>t. t_column_id t \<noteq> C) (tasks s) \<and>
         calls (snd (delete_column C s)) = calls s @ [DeleteOne Column, DeleteMany Task] \<and>
         fst (delete_column C s) =
           (if list_ex (\<lambda>c. c_oid c = i) (columns s) then Inr (Deleted True)
            else Inl (HTTPException 404 ''Column not found''))"
  using assms
  by (simp add: delete_column_def delete_one_column_def delete_many_tasks_def
      delete_first_distinct)

text \<open>
  On the example board: deleting the first column leaves the second column and its task;
  deleting with an id that no column has answers 404 and still removes the task that
  names that id.
\<close>

theorem delete_column_cascade_witness:
  "ObjectId id_a = Some (OID id_a) \<and> distinct (map c_oid (columns board)) \<and>
   columns (snd (delete_column id_a board)) =
     [\<lparr>c_oid = OID id_b, c_name = ''Done'', c_position = Some 1\<rparr>] \<and>
   tasks (snd (delete_column id_a board)) = [task_2] \<and>
   fst (delete_column id_a board) = Inr (Deleted True) \<and>
   ObjectId id_4 = Some (OID id_4) \<and>
   fst (delete_column id_4 (board\<lparr>tasks := [task_1\<lparr>t_column_id := id_4\<rparr>, task_2]\<rparr>)) =
     Inl (HTTPException 404 ''Column not found'') \<and>
   tasks (snd (delete_column id_4 (board\<lparr>tasks := [task_1\<lparr>t_column_id := id_4\<rparr>, task_2]\<rparr>))) =
     [task_2]"
proof -
  have d: "distinct (map c_oid (columns board))" by (simp add: board_def ids)
  have d': "distinct (map c_oid (columns (board\<lparr>tasks := [task_1\<lparr>t_column_id := id_4\<rparr>, task_2]\<rparr>)))"
    by (simp add: board_def ids)
  show ?thesis
    using delete_column_cascade [OF ObjectId_ids(1) d]
      delete_column_cascade [OF ObjectId_ids(6) d'] d
    by (simp add: ObjectId_ids) (simp add: board_def ids task_1_def task_2_def task_3_def)
qed

section \<open>Tasks\<close>


text \<open>
  Claim C2. The position that Create Task gives the new task is the rule of the spec for
  its column, computed on the store before the insert: the largest position of the column
  plus one, \<open>0\<close> for a column without tasks. When that number fits the store's integers
  the task is appended with it; when it does not (the column's top is at the largest
  64-bit integer), the insert raises the encoder's error and nothing is stored.
\<close>

theorem create_task_position:
  "let c = tc_column_id payload;
       pos = (if column_positions c (tasks s) = [] \<and>
                 filter (\<lambda>t. t_column_id t = c) (tasks s) \<noteq> []
              then 1 else spec_end_of_column c (tasks s))
   in if int64 pos
      then \<exists>d. tasks (snd (create_task new payload s)) = tasks s @ [d] \<and>
                t_oid d = new \<and> t_column_id d = c \<and> t_position d = Some pos
      else fst (create_task new payload s) = Inl OverflowError \<and>
           tasks (snd (create_task new payload s)) = tasks s"
proof -
  let ?c = "tc_column_id payload"
  have pos: "new_position ?c s =
      (if column_positions ?c (tasks s) = [] \<and> filter (\<lambda>t. t_column_id t = ?c) (tasks s) \<noteq> []
       then 1 else spec_end_of_column ?c (tasks s))"
    by (rule new_position_eq)
  show ?thesis
  proof (cases "int64 (new_position ?c s)")
    case True
    then show ?thesis
      unfolding Let_def pos [symmetric] by (simp add: create_task_store)
  next
    case False
    then show ?thesis
      unfolding Let_def pos [symmetric] by (simp add: create_task_store create_task_overflow)
  qed
qed

text \<open>
  The two examples of the spec: a column holding the positions \<open>0\<close>, \<open>1\<close>, \<open>2\<close>
  gives \<open>3\<close>, a column without tasks gives \<open>0\<close>. And a column whose top is at
  \<open>2^63 - 1\<close>: the insert fails and the store keeps its one task.
\<close>

theorem create_task_position_witness:
  "tasks (snd (create_task (OID id_4)
      \<lparr>tc_title = ''new'', tc_description = None, tc_column_id = id_a, tc_position = None,
        tc_priority = None, tc_tags = None\<rparr>
      \<lparr>columns = [], tasks = [task_at id_1 id_a 0, task_at id_2 id_a 1, task_at id_3 id_a 2],
        calls = [], rejects_empty_set = False\<rparr>)) =
     [task_at id_1 id_a 0, task_at id_2 id_a 1, task_at id_3 id_a 2,
      \<lparr>t_oid = OID id_4, t_title = ''new'', t_description = None, t_column_id = id_a,
        t_position = Some 3, t_priority = ''normal'', t_tags = []\<rparr>] \<and>
   tasks (snd (create_task (OID id_4)
      \<lparr>tc_title = ''new'', tc_description = None, tc_column_id = id_b, tc_position = None,
        tc_priority = None, tc_tags = None\<rparr>
      \<lparr>columns = [], tasks = [task_at id_1 id_a 0, task_at id_2 id_a 1, task_at id_3 id_a 2],
        calls = [], rejects_empty_set = False\<rparr>)) =
     [task_at id_1 id_a 0, task_at id_2 id_a 1, task_at id_3 id_a 2,
      \<lparr>t_oid = OID id_4, t_title = ''new'', t_description = None, t_column_id = id_b,
        t_position = Some 0, t_priority = ''normal'', t_tags = []\<rparr>] \<and>
   create_task (OID id_4)
      \<lparr>tc_title = ''new'', tc_description = None, tc_column_id = id_a, tc_position = None,
        tc_priority = None, tc_tags = None\<rparr>
      \<lparr>columns = [], tasks = [task_at id_1 id_a 9223372036854775807],
        calls = [], rejects_empty_set = False\<rparr> =
     (Inl OverflowError,
      \<lparr>columns = [], tasks = [task_at id_1 id_a 9223372036854775807],
        calls = [Find Task, InsertOne Task], rejects_empty_set = False\<rparr>)"
proof -
  let ?ts = "[task_at id_1 id_a 0, task_at id_2 id_a 1, task_at id_3 id_a 2]"
  let ?s = "\<lparr>columns = [], tasks = ?ts, calls = [], rejects_empty_set = False\<rparr>"
  let ?s' = "\<lparr>columns = [], tasks = [task_at id_1 id_a 9223372036854775807],
              calls = [], rejects_empty_set = False\<rparr>"
  let ?p = "\<lparr>tc_title = ''new'', tc_description = None, tc_column_id = id_a, tc_position = None,
        tc_priority = None, tc_tags = None\<rparr>"
  have big: "create_task (OID id_4) ?p ?s' =
     (Inl OverflowError,
      \<lparr>columns = [], tasks = [task_at id_1 id_a 9223372036854775807],
        calls = [Find Task, InsertOne Task], rejects_empty_set = False\<rparr>)"
    by (simp add: create_task_def find_last_task_def last_pos_of_def task_key_def
        create_document_task_def encodable_def int64_def task_at_def called_def Let_def)
  from create_task_position [of ?p ?s "OID id_4"]
    create_task_position [of
      "\<lparr>tc_title = ''new'', tc_description = None, tc_column_id = id_b, tc_position = None,
        tc_priority = None, tc_tags = None\<rparr>" ?s "OID id_4"]
    create_task_position [of ?p ?s' "OID id_4"] big
  show ?thesis
    by (simp add: create_task_store new_position_eq spec_end_of_column_def column_positions_def
        task_at_def ids int64_def)
qed

text \<open>
  Claim C1 says that a \<^verbatim>\<open>position\<close> in the Create Task request is used as given.
  The handler never reads the field: a request with position \<open>7\<close> for a column without
  tasks stores position \<open>0\<close> and returns it.
\<close>

theorem create_task_explicit_position_ignored:
  "tasks (snd (create_task (OID ''75a1b2c3d4e5f60718293a04'')
      \<lparr>tc_title = ''new'', tc_description = None, tc_column_id = ''c1'', tc_position = Some 7,
        tc_priority = None, tc_tags = None\<rparr>
      \<lparr>columns = [], tasks = [], calls = [], rejects_empty_set = False\<rparr>)) =
     [\<lparr>t_oid = OID ''75a1b2c3d4e5f60718293a04'', t_title = ''new'', t_description = None,
       t_column_id = ''c1'', t_position = Some 0, t_priority = ''normal'', t_tags = []\<rparr>] \<and>
   fst (create_task (OID ''75a1b2c3d4e5f60718293a04'')
      \<lparr>tc_title = ''new'', tc_description = None, tc_column_id = ''c1'', tc_position = Some 7,
        tc_priority = None, tc_tags = None\<rparr>
      \<lparr>columns = [], tasks = [], calls = [], rejects_empty_set = False\<rparr>) =
     Inr (Some \<lparr>tj_id = ''75a1b2c3d4e5f60718293a04'', tj_title = ''new'', tj_description = None,
       tj_column_id = ''c1'', tj_position = Some 0, tj_priority = ''normal'', tj_tags = []\<rparr>)"
  by (simp add: create_task_def find_last_task_def last_pos_of_def create_document_task_def
      find_one_task_def to_str_id_task_def ObjectId_eval encodable_def int64_def Let_def)

text \<open>
  For every request: the result does not depend on the field.
\<close>

lemma create_task_position_unread:
  "create_task new (payload\<lparr>tc_position := x\<rparr>) s = create_task new payload s"
  by (simp add: create_task_def)

text \<open>
  Claim C3. Update Task on a stored task, with a \<^verbatim>\<open>column_id\<close> in the patch: the task
  moves to that column; without a \<^verbatim>\<open>position\<close> in the patch its position is the end of
  the target column, computed on the store before the update (one more query, first);
  with a \<^verbatim>\<open>position\<close> it is that position, and no query is made for it. A position
  that does not fit the store's integers makes the update raise the encoder's error,
  and the tasks stay as they were.
\<close>

theorem update_task_column_move:
  assumes "ObjectId task_id = Some i"
    and "find (\<lambda>t. t_oid t = i) (tasks s) = Some t"
    and "tu_column_id payload = Some c"
  shows "let pos = (case tu_position payload of
                      Some p \<Rightarrow> p
                    | None \<Rightarrow>
                        if column_positions c (tasks s) = [] \<and>
                           filter (\<lambda>t. t_column_id t = c) (tasks s) \<noteq> []
                        then 1 else spec_end_of_column c (tasks s));
             d = set_task (payload\<lparr>tu_position := Some pos\<rparr>) t;
             queried = (if tu_position payload = None then [Find Task] else [])
         in if int64 pos
            then fst (update_task task_id payload s) = Inr (to_str_id_task d) \<and>
                 find (\<lambda>t. t_oid t = i) (tasks (snd (update_task task_id payload s))) = Some d \<and>
                 t_column_id d = c \<and> t_position d = Some pos \<and>
                 calls (snd (update_task task_id payload s)) =
                   calls s @ queried @ [UpdateOne Task, FindOne Task]
            else fst (update_task task_id payload s) = Inl OverflowError \<and>
                 tasks (snd (update_task task_id payload s)) = tasks s \<and>
                 calls (snd (update_task task_id payload s)) =
                   calls s @ queried @ [UpdateOne Task]"
proof (cases "tu_position payload")
  case None
  let ?u = "payload\<lparr>tu_position := Some (new_position c s)\<rparr>"
  have ne: "\<not> no_task_updates ?u" by (simp add: no_task_updates_def)
  have fnd: "find (\<lambda>t. t_oid t = i) (update_first (\<lambda>t. t_oid t = i) (set_task ?u) (tasks s)) =
             Some (set_task ?u t)"
    using assms(2) by (simp add: find_update_first)
  have flds: "t_column_id (set_task ?u t) = c" "t_position (set_task ?u t) = Some (new_position c s)"
    using assms(3) by (simp_all add: set_task_def)
  show ?thesis
  proof (cases "int64 (new_position c s)")
    case True
    have "update_task task_id payload s =
          (Inr (to_str_id_task (set_task ?u t)),
           called (FindOne Task) (called (UpdateOne Task)
             (called (Find Task) s
                \<lparr>tasks := update_first (\<lambda>t. t_oid t = i) (set_task ?u) (tasks s)\<rparr>)))"
      using assms None ne fnd True
      by (simp add: update_task_def find_last_task_def new_position_def update_one_task_def
          find_one_task_def encodable_def)
    with flds None fnd True show ?thesis
      unfolding new_position_eq [symmetric] by (simp add: Let_def)
  next
    case False
    have "update_task task_id payload s =
          (Inl OverflowError, called (UpdateOne Task) (called (Find Task) s))"
      using assms None False
      by (simp add: update_task_def find_last_task_def new_position_def update_one_task_def
          encodable_def)
    with None False show ?thesis
      unfolding new_position_eq [symmetric] by (simp add: Let_def)
  qed
next
  case (Some p)
  have ne: "\<not> no_task_updates payload" using Some by (simp add: no_task_updates_def)
  have same: "payload\<lparr>tu_position := Some p\<rparr> = payload" using Some by simp
  have fnd: "find (\<lambda>t. t_oid t = i) (update_first (\<lambda>t. t_oid t = i) (set_task payload) (tasks s)) =
             Some (set_task payload t)"
    using assms(2) by (simp add: find_update_first)
  have flds: "t_column_id (set_task payload t) = c" "t_position (set_task payload t) = Some p"
    using assms(3) Some by (simp_all add: set_task_def)
  show ?thesis
  proof (cases "int64 p")
    case True
    have "update_task task_id payload s =
          (Inr (to_str_id_task (set_task payload t)),
           called (FindOne Task) (called (UpdateOne Task)
             (s\<lparr>tasks := update_first (\<lambda>t. t_oid t = i) (set_task payload) (tasks s)\<rparr>)))"
      using assms Some ne fnd True
      by (simp add: update_task_def update_one_task_def find_one_task_def encodable_def)
    with flds Some fnd True show ?thesis by (simp add: Let_def same)
  next
    case False
    have "update_task task_id payload s = (Inl OverflowError, called (UpdateOne Task) s)"
      using assms Some False
      by (simp add: update_task_def update_one_task_def encodable_def)
    with Some False show ?thesis by (simp add: Let_def)
  qed
qed

text \<open>
  On the example board: the first task moves to the second column, whose only task is at
  position \<open>4\<close>; it lands at \<open>5\<close>, or at \<open>2\<close> when the patch says so; a patch
  with the position \<open>2^63\<close> is refused.
\<close>

theorem update_task_column_move_witness:
  "ObjectId id_1 = Some (OID id_1) \<and>
   find (\<lambda>t. t_oid t = OID id_1) (tasks board) = Some task_1 \<and>
   fst (update_task id_1
          \<lparr>tu_title = None, tu_description = None, tu_column_id = Some id_b, tu_position = None,
           tu_priority = None, tu_tags = None\<rparr> board) =
     Inr (to_str_id_task (task_1\<lparr>t_column_id := id_b, t_position := Some 5\<rparr>)) \<and>
   fst (update_task id_1
          \<lparr>tu_title = None, tu_description = None, tu_column_id = Some id_b, tu_position = Some 2,
           tu_priority = None, tu_tags = None\<rparr> board) =
     Inr (to_str_id_task (task_1\<lparr>t_column_id := id_b, t_position := Some 2\<rparr>)) \<and>
   fst (update_task id_1
          \<lparr>tu_title = None, tu_description = None, tu_column_id = Some id_b,
           tu_position = Some 9223372036854775808, tu_priority = None, tu_tags = None\<rparr> board) =
     Inl OverflowError \<and>
   tasks (snd (update_task id_1
          \<lparr>tu_title = None, tu_description = None, tu_column_id = Some id_b,
           tu_position = Some 9223372036854775808, tu_priority = None, tu_tags = None\<rparr> board)) =
     tasks board"
proof -
  have f: "find (\<lambda>t. t_oid t = OID id_1) (tasks board) = Some task_1"
    by (simp add: board_def task_1_def)
  have cp: "column_positions id_b (tasks board) = [4]"
    by (simp add: column_positions_def board_def task_1_def task_2_def task_3_def ids)
  let ?p = "\<lparr>tu_title = None, tu_description = None, tu_column_id = Some id_b, tu_position = None,
           tu_priority = None, tu_tags = None\<rparr>"
  let ?q = "\<lparr>tu_title = None, tu_description = None, tu_column_id = Some id_b, tu_position = Some 2,
           tu_priority = None, tu_tags = None\<rparr>"
  let ?r = "\<lparr>tu_title = None, tu_description = None, tu_column_id = Some id_b,
           tu_position = Some 9223372036854775808, tu_priority = None, tu_tags = None\<rparr>"
  have "tu_column_id ?p = Some id_b" "tu_column_id ?q = Some id_b" "tu_column_id ?r = Some id_b"
    by simp_all
  from update_task_column_move [OF ObjectId_ids(3) f this(1)]
    update_task_column_move [OF ObjectId_ids(3) f this(2)]
    update_task_column_move [OF ObjectId_ids(3) f this(3)] f
  show ?thesis
    by (simp add: ObjectId_ids cp spec_end_of_column_def Let_def int64_def)
      (simp add: set_task_def task_1_def)
qed

section \<open>Malformed and unknown identifiers\<close>

text \<open>
  Claim C6, as amended. A path id that is not a well-formed identifier gives the 400 of
  the handler with the store untouched and no call made, in all four handlers. A
  well-formed id that no document has gives the 404 after the mutating call (the lookup
  that follows the update, the count of the delete), the collection being as before, for
  both deletes and for an update whose patch is not empty and whose position (given, or
  computed for a move) fits the store's integers; with a position that does not fit, the
  update raises the encoder's error before the lookup. Update Column with an empty patch
  answers \<^verbatim>\<open>{"updated": False}\<close> instead, before any call.
\<close>

theorem invalid_id_and_not_found:
  "(ObjectId x = None \<longrightarrow>
      update_column x cp s = (Inl (HTTPException 400 ''Invalid column id''), s) \<and>
      delete_column x s = (Inl (HTTPException 400 ''Invalid column id''), s) \<and>
      update_task x tp s = (Inl (HTTPException 400 ''Invalid task id''), s) \<and>
      delete_task x s = (Inl (HTTPException 400 ''Invalid task id''), s)) \<and>
   (ObjectId x = Some i \<and> find (\<lambda>c. c_oid c = i) (columns s) = None \<longrightarrow>
      (if no_column_updates cp
       then update_column x cp s = (Inr (Updated False), s)
       else if encodable (cu_position cp)
       then update_column x cp s =
              (Inl (HTTPException 404 ''Column not found''),
               s\<lparr>calls := calls s @ [UpdateOne Column, FindOne Column]\<rparr>)
       else update_column x cp s =
              (Inl OverflowError, s\<lparr>calls := calls s @ [UpdateOne Column]\<rparr>)) \<and>
      fst (delete_column x s) = Inl (HTTPException 404 ''Column not found'') \<and>
      columns (snd (delete_column x s)) = columns s \<and>
      calls (snd (delete_column x s)) = calls s @ [DeleteOne Column, DeleteMany Task]) \<and>
   (ObjectId x = Some i \<and> find (\<lambda>t. t_oid t = i) (tasks s) = None \<longrightarrow>
      (if no_task_updates tp then True
       else let written = (case tu_position tp of
                             Some p \<Rightarrow> Some p
                           | None \<Rightarrow> map_option (\<lambda>c. new_position c s) (tu_column_id tp));
                queried = (if tu_column_id tp \<noteq> None \<and> tu_position tp = None
                           then [Find Task] else [])
            in tasks (snd (update_task x tp s)) = tasks s \<and>
               columns (snd (update_task x tp s)) = columns s \<and>
               (if encodable written
                then fst (update_task x tp s) = Inl (HTTPException 404 ''Task not found'') \<and>
                     calls (snd (update_task x tp s)) =
                       calls s @ queried @ [UpdateOne Task, FindOne Task]
                else fst (update_task x tp s) = Inl OverflowError \<and>
                     calls (snd (update_task x tp s)) = calls s @ queried @ [UpdateOne Task])) \<and>
      delete_task x s =
        (Inl (HTTPException 404 ''Task not found''), s\<lparr>calls := calls s @ [DeleteOne Task]\<rparr>))"
proof (intro conjI impI)
  assume "ObjectId x = None"
  then show "update_column x cp s = (Inl (HTTPException 400 ''Invalid column id''), s)"
    "delete_column x s = (Inl (HTTPException 400 ''Invalid column id''), s)"
    "update_task x tp s = (Inl (HTTPException 400 ''Invalid task id''), s)"
    "delete_task x s = (Inl (HTTPException 400 ''Invalid task id''), s)"
    by (simp_all add: update_column_def delete_column_def update_task_def delete_task_def)
next
  assume a: "ObjectId x = Some i \<and> find (\<lambda>c. c_oid c = i) (columns s) = None"
  then have nex: "\<not> list_ex (\<lambda>c. c_oid c = i) (columns s)" by (simp add: list_ex_find)
  show "if no_column_updates cp
       then update_column x cp s = (Inr (Updated False), s)
       else if encodable (cu_position cp)
       then update_column x cp s =
              (Inl (HTTPException 404 ''Column not found''),
               s\<lparr>calls := calls s @ [UpdateOne Column, FindOne Column]\<rparr>)
       else update_column x cp s =
              (Inl OverflowError, s\<lparr>calls := calls s @ [UpdateOne Column]\<rparr>)"
    using a nex
    by (simp add: update_column_def update_one_column_def find_one_column_def
        update_first_absent called_def)
  show "fst (delete_column x s) = Inl (HTTPException 404 ''Column not found'')"
    "columns (snd (delete_column x s)) = columns s"
    "calls (snd (delete_column x s)) = calls s @ [DeleteOne Column, DeleteMany Task]"
    using a nex
    by (simp_all add: delete_column_def delete_one_column_def delete_many_tasks_def
        delete_first_absent)
next
  assume a: "ObjectId x = Some i \<and> find (\<lambda>t. t_oid t = i) (tasks s) = None"
  then have nex: "\<not> list_ex (\<lambda>t. t_oid t = i) (tasks s)" by (simp add: list_ex_find)
  show "delete_task x s =
        (Inl (HTTPException 404 ''Task not found''), s\<lparr>calls := calls s @ [DeleteOne Task]\<rparr>)"
    using a nex by (simp add: delete_task_def delete_one_task_def delete_first_absent called_def)
  show "if no_task_updates tp then True
       else let written = (case tu_position tp of
                             Some p \<Rightarrow> Some p
                           | None \<Rightarrow> map_option (\<lambda>c. new_position c s) (tu_column_id tp));
                queried = (if tu_column_id tp \<noteq> None \<and> tu_position tp = None
                           then [Find Task] else [])
            in tasks (snd (update_task x tp s)) = tasks s \<and>
               columns (snd (update_task x tp s)) = columns s \<and>
               (if encodable written
                then fst (update_task x tp s) = Inl (HTTPException 404 ''Task not found'') \<and>
                     calls (snd (update_task x tp s)) =
                       calls s @ queried @ [UpdateOne Task, FindOne Task]
                else fst (update_task x tp s) = Inl OverflowError \<and>
                     calls (snd (update_task x tp s)) = calls s @ queried @ [UpdateOne Task])"
  proof (cases "no_task_updates tp")
    case True
    then show ?thesis by simp
  next
    case False
    show ?thesis
    proof (cases "tu_column_id tp \<noteq> None \<and> tu_position tp = None")
      case True
      then obtain c where c: "tu_column_id tp = Some c" "tu_position tp = None" by auto
      have "\<not> no_task_updates (tp\<lparr>tu_position := Some (last_pos_of (fst (find_last_task c s)))\<rparr>)"
        by (simp add: no_task_updates_def)
      with a nex c False show ?thesis
        by (simp add: update_task_def update_one_task_def find_one_task_def find_last_task_def
            update_first_absent new_position_def Let_def)
    next
      case nomove: False
      with a nex False show ?thesis
        by (auto simp: update_task_def update_one_task_def find_one_task_def
            update_first_absent Let_def encodable_def split: option.split)
    qed
  qed
qed

text \<open>
  On the example board, with a malformed id, with a well-formed id that neither a column
  nor a task has, and with 22 digits followed by two blanks, which the constructor
  accepts as an identifier of eleven bytes.
\<close>

theorem invalid_id_and_not_found_witness:
  "ObjectId ''not-an-id'' = None \<and>
   update_column ''not-an-id'' \<lparr>cu_name = Some ''Later'', cu_position = None\<rparr> board =
     (Inl (HTTPException 400 ''Invalid column id''), board) \<and>
   delete_column ''not-an-id'' board = (Inl (HTTPException 400 ''Invalid column id''), board) \<and>
   update_task ''not-an-id''
     \<lparr>tu_title = Some ''x'', tu_description = None, tu_column_id = None, tu_position = None,
       tu_priority = None, tu_tags = None\<rparr> board =
     (Inl (HTTPException 400 ''Invalid task id''), board) \<and>
   delete_task ''not-an-id'' board = (Inl (HTTPException 400 ''Invalid task id''), board) \<and>
   ObjectId id_4 = Some (OID id_4) \<and>
   find (\<lambda>c. c_oid c = OID id_4) (columns board) = None \<and>
   find (\<lambda>t. t_oid t = OID id_4) (tasks board) = None \<and>
   update_column id_4 \<lparr>cu_name = Some ''Later'', cu_position = None\<rparr> board =
     (Inl (HTTPException 404 ''Column not found''),
      board\<lparr>calls := [UpdateOne Column, FindOne Column]\<rparr>) \<and>
   fst (delete_column id_4 board) = Inl (HTTPException 404 ''Column not found'') \<and>
   columns (snd (delete_column id_4 board)) = columns board \<and>
   fst (update_task id_4
     \<lparr>tu_title = Some ''x'', tu_description = None, tu_column_id = None, tu_position = None,
       tu_priority = None, tu_tags = None\<rparr> board) = Inl (HTTPException 404 ''Task not found'') \<and>
   tasks (snd (update_task id_4
     \<lparr>tu_title = Some ''x'', tu_description = None, tu_column_id = None, tu_position = None,
       tu_priority = None, tu_tags = None\<rparr> board)) = tasks board \<and>
   delete_task id_4 board =
     (Inl (HTTPException 404 ''Task not found''), board\<lparr>calls := [DeleteOne Task]\<rparr>) \<and>
   ObjectId ''65a1b2c3d4e5f60718293a  '' = Some (OID ''65a1b2c3d4e5f60718293a'') \<and>
   find (\<lambda>t. t_oid t = OID ''65a1b2c3d4e5f60718293a'') (tasks board) = None \<and>
   delete_task ''65a1b2c3d4e5f60718293a  '' board =
     (Inl (HTTPException 404 ''Task not found''), board\<lparr>calls := [DeleteOne Task]\<rparr>)"
proof -
  let ?cp = "\<lparr>cu_name = Some ''Later'', cu_position = None\<rparr>"
  let ?tp = "\<lparr>tu_title = Some ''x'', tu_description = None, tu_column_id = None,
              tu_position = None, tu_priority = None, tu_tags = None\<rparr>"
  have bad: "ObjectId ''not-an-id'' = None" by (simp add: ObjectId_def)
  have sp: "ObjectId ''65a1b2c3d4e5f60718293a  '' = Some (OID ''65a1b2c3d4e5f60718293a'')"
    by (simp add: ObjectId_eval)
  have nc: "find (\<lambda>c. c_oid c = OID id_4) (columns board) = None"
    by (simp add: board_def ids)
  have nt: "find (\<lambda>t. t_oid t = OID id_4) (tasks board) = None"
    "find (\<lambda>t. t_oid t = OID ''65a1b2c3d4e5f60718293a'') (tasks board) = None"
    by (simp_all add: board_def task_1_def task_2_def task_3_def ids)
  have ne: "\<not> no_column_updates ?cp" "\<not> no_task_updates ?tp"
    by (simp_all add: no_column_updates_def no_task_updates_def)
  have c0: "calls board = []" by (simp add: board_def)
  from invalid_id_and_not_found [where x = "''not-an-id''" and cp = ?cp and tp = ?tp and s = board]
    invalid_id_and_not_found [where x = id_4 and i = "OID id_4" and cp = ?cp and tp = ?tp and s = board]
    invalid_id_and_not_found [where x = "''65a1b2c3d4e5f60718293a  ''"
      and i = "OID ''65a1b2c3d4e5f60718293a''" and cp = ?cp and tp = ?tp and s = board]
  show ?thesis
    by (simp add: bad sp nc nt ne c0 ObjectId_ids encodable_def Let_def)
qed

text \<open>
  Claim C6 as it is written fails for Update Column: with a well-formed id that no column
  has and an empty patch, the handler answers \<^verbatim>\<open>{"updated": False}\<close>, not the 404;
  and with the position \<open>2^63\<close> in the patch the update raises before the lookup.
\<close>

theorem update_column_unknown_id_counterexample:
  "ObjectId ''65a1b2c3d4e5f60718293a4b'' = Some (OID ''65a1b2c3d4e5f60718293a4b'') \<and>
   fst (update_column ''65a1b2c3d4e5f60718293a4b'' \<lparr>cu_name = None, cu_position = None\<rparr>
          \<lparr>columns = [], tasks = [], calls = [], rejects_empty_set = False\<rparr>) =
     Inr (Updated False) \<and>
   fst (update_column ''65a1b2c3d4e5f60718293a4b'' \<lparr>cu_name = None, cu_position = None\<rparr>
          \<lparr>columns = [], tasks = [], calls = [], rejects_empty_set = False\<rparr>) \<noteq>
     Inl (HTTPException 404 ''Column not found'') \<and>
   fst (update_column ''65a1b2c3d4e5f60718293a4b''
          \<lparr>cu_name = None, cu_position = Some 9223372036854775808\<rparr>
          \<lparr>columns = [], tasks = [], calls = [], rejects_empty_set = False\<rparr>) =
     Inl OverflowError"
  by (simp add: update_column_def no_column_updates_def update_one_column_def ObjectId_eval
      encodable_def int64_def)

text \<open>
  Claim C4 says that Update Task with an empty patch answers like Update Column, with an
  indicator that nothing changed and without a write. The handler has no such branch: it
  sends the update with an empty \<^verbatim>\<open>$set\<close> and then looks the task up. For a stored
  task it returns the document after an \<^verbatim>\<open>update_one\<close> call; on a server that rejects
  the empty operand the driver's error leaves the handler; for an unknown id it answers
  404. Update Column, on the same id and an empty patch, answers
  \<^verbatim>\<open>{"updated": False}\<close> and makes no call.
\<close>

theorem update_task_empty_patch_writes:
  "fst (update_task ''75a1b2c3d4e5f60718293a01''
      \<lparr>tu_title = None, tu_description = None, tu_column_id = None, tu_position = None,
        tu_priority = None, tu_tags = None\<rparr>
      \<lparr>columns = [],
        tasks = [\<lparr>t_oid = OID ''75a1b2c3d4e5f60718293a01'', t_title = ''write'',
                  t_description = None, t_column_id = ''c1'', t_position = Some 0,
                  t_priority = ''normal'', t_tags = []\<rparr>],
        calls = [], rejects_empty_set = False\<rparr>) =
     Inr \<lparr>tj_id = ''75a1b2c3d4e5f60718293a01'', tj_title = ''write'', tj_description = None,
          tj_column_id = ''c1'', tj_position = Some 0, tj_priority = ''normal'', tj_tags = []\<rparr> \<and>
   calls (snd (update_task ''75a1b2c3d4e5f60718293a01''
      \<lparr>tu_title = None, tu_description = None, tu_column_id = None, tu_position = None,
        tu_priority = None, tu_tags = None\<rparr>
      \<lparr>columns = [],
        tasks = [\<lparr>t_oid = OID ''75a1b2c3d4e5f60718293a01'', t_title = ''write'',
                  t_description = None, t_column_id = ''c1'', t_position = Some 0,
                  t_priority = ''normal'', t_tags = []\<rparr>],
        calls = [], rejects_empty_set = False\<rparr>)) = [UpdateOne Task, FindOne Task] \<and>
   update_task ''75a1b2c3d4e5f60718293a01''
      \<lparr>tu_title = None, tu_description = None, tu_column_id = None, tu_position = None,
        tu_priority = None, tu_tags = None\<rparr>
      \<lparr>columns = [], tasks = [], calls = [], rejects_empty_set = True\<rparr> =
     (Inl WriteError, \<lparr>columns = [], tasks = [], calls = [UpdateOne Task], rejects_empty_set = True\<rparr>) \<and>
   update_task ''75a1b2c3d4e5f60718293a01''
      \<lparr>tu_title = None, tu_description = None, tu_column_id = None, tu_position = None,
        tu_priority = None, tu_tags = None\<rparr>
      \<lparr>columns = [], tasks = [], calls = [], rejects_empty_set = False\<rparr> =
     (Inl (HTTPException 404 ''Task not found''),
      \<lparr>columns = [], tasks = [], calls = [UpdateOne Task, FindOne Task], rejects_empty_set = False\<rparr>) \<and>
   update_column ''75a1b2c3d4e5f60718293a01'' \<lparr>cu_name = None, cu_position = None\<rparr>
      \<lparr>columns = [], tasks = [], calls = [], rejects_empty_set = False\<rparr> =
     (Inr (Updated False), \<lparr>columns = [], tasks = [], calls = [], rejects_empty_set = False\<rparr>)"
  by (simp add: update_task_def update_column_def update_one_task_def find_one_task_def
      no_task_updates_def no_column_updates_def set_task_def to_str_id_task_def ObjectId_eval
      encodable_def called_def Let_def)

section \<open>Diagnostics\<close>

text \<open>
  Claim C9. The diagnostics handler returns its report for every state of the store
  handle: no handle, a handle whose attribute or whose listing raises, a working one. An
  exception ends up in the field \<^verbatim>\<open>database\<close>, cut to its first 50 characters, and at
  most ten collection names are reported. The function has no error result: every
  operation that can raise stands inside the \<^verbatim>\<open>try\<close> blocks, whose handlers are the
  \<open>Inl\<close> branches.
\<close>

theorem test_database_never_raises:
  "length (collections (test_database db env_url env_name)) \<le> 10 \<and>
   backend (test_database db env_url env_name) = Marked CheckMark '' Running'' \<and>
   (db = None \<longrightarrow>
      database (test_database db env_url env_name) =
        Marked WarningSign ''  Available but not initialized'' \<and>
      collections (test_database db env_url env_name) = []) \<and>
   (\<forall>h e. db = Some h \<and> db_name h = Inl e \<longrightarrow>
      database (test_database db env_url env_name) = Marked CrossMark ('' Error: '' @ take 50 e) \<and>
      collections (test_database db env_url env_name) = []) \<and>
   (\<forall>h n e. db = Some h \<and> db_name h = Inr n \<and> list_collection_names h = Inl e \<longrightarrow>
      database (test_database db env_url env_name) =
        Marked WarningSign (''  Connected but Error: '' @ take 50 e) \<and>
      collections (test_database db env_url env_name) = []) \<and>
   (\<forall>h n cs. db = Some h \<and> db_name h = Inr n \<and> list_collection_names h = Inr cs \<longrightarrow>
      database (test_database db env_url env_name) = Marked CheckMark '' Connected & Working'' \<and>
      collections (test_database db env_url env_name) = take 10 cs)"
  by (simp add: test_database_def Let_def split: option.split sum.split)

text \<open>
  Without a handle; with a listing that raises a message of 74 characters; with twelve
  collections.
\<close>

theorem test_database_never_raises_witness:
  "database (test_database None None None) = Marked WarningSign ''  Available but not initialized'' \<and>
   database (test_database
      (Some \<lparr>db_name = Inr (Some ''kanban''),
             list_collection_names =
               Inl ''localhost:27017: [Errno 111] Connection refused (configured timeouts: 30s)''\<rparr>)
      None None) =
     Marked WarningSign ''  Connected but Error: localhost:27017: [Errno 111] Connection refused (c'' \<and>
   collections (test_database
      (Some \<lparr>db_name = Inr (Some ''kanban''),
             list_collection_names =
               Inr [''c01'', ''c02'', ''c03'', ''c04'', ''c05'', ''c06'', ''c07'', ''c08'', ''c09'',
                    ''c10'', ''c11'', ''c12'']\<rparr>)
      (Some ''mongodb://db'') None) =
     [''c01'', ''c02'', ''c03'', ''c04'', ''c05'', ''c06'', ''c07'', ''c08'', ''c09'', ''c10'']"
proof -
  let ?h1 = "\<lparr>db_name = Inr (Some ''kanban''),
             list_collection_names =
               Inl ''localhost:27017: [Errno 111] Connection refused (configured timeouts: 30s)''\<rparr>"
  let ?h2 = "\<lparr>db_name = Inr (Some ''kanban''),
             list_collection_names =
               Inr [''c01'', ''c02'', ''c03'', ''c04'', ''c05'', ''c06'', ''c07'', ''c08'', ''c09'',
                    ''c10'', ''c11'', ''c12'']\<rparr>"
  from test_database_never_raises [of None None None]
    test_database_never_raises [of "Some ?h1" None None]
    test_database_never_raises [of "Some ?h2" "Some ''mongodb://db''" None]
  show ?thesis by simp
qed

end
